theory Spec2Isabelle
  imports Complex_Main "HOL-Library.Word"
begin

unbundle bit_operations_syntax

section \<open>Data model\<close>

text \<open>
  The rows of the four tables the payment flow reads and writes. Column names are those
  of the SQL schema and of the objects the TypeScript code passes to the store client.
  Text columns with a fixed vocabulary are datatypes; nullable columns are options.
  The \<^verbatim>\<open>id\<close> columns of orders and product variants are \<open>id_order\<close> and
  \<open>id_variant\<close>, and the \<^verbatim>\<open>user_id\<close> column of an order is \<open>owner_id\<close>; the generated
  key of a payment or order item row is never read by the code and is left out. Amounts
  are JavaScript numbers in the source; they are rationals here, so rounding effects of
  binary floating point are outside the model. Strings are byte strings.
\<close>

datatype payment_status = Pending | Completed | Failed

datatype order_status =
  OrderPending | OrderConfirmed | OrderProcessing | OrderShipped | OrderDelivered | OrderCancelled

record payment =
  order_id :: string
  user_id :: string
  razorpay_order_id :: string
  razorpay_payment_id :: "string option"
  razorpay_signature :: "string option"
  amount :: rat
  currency :: string
  status :: payment_status
  error_message :: "string option"

record order =
  id_order :: string
  owner_id :: string
  order_status :: order_status
  subtotal :: rat
  shipping_cost :: rat
  total :: rat
  payment_method :: string

record order_item =
  oi_order_id :: string
  oi_product_id :: string
  oi_variant_id :: string
  oi_product_name :: string
  oi_quantity :: int
  oi_unit_price :: rat
  oi_total_price :: rat

record product_variant =
  id_variant :: string
  stock_quantity :: int

text \<open>The cart entry of \<^verbatim>\<open>CartContext.tsx\<close> (interface \<^verbatim>\<open>CartItem\<close>).\<close>

record cart_item =
  productId :: string
  variantId :: string
  name :: string
  size :: string
  color :: string
  price :: rat
  quantity :: int

section \<open>The store\<close>

text \<open>
  The store client returns \<^verbatim>\<open>{ data, error }\<close> for every query. A table that is
  listed in \<open>outage\<close> rejects every query on it with an error and keeps its rows; an
  available table executes the query. An update with an \<^verbatim>\<open>.eq\<close> filter rewrites every
  row the filter selects that the policies of the table let the caller update, and
  selecting no row is not an error.

  The client of the payment function is built with the caller's Authorization header, so
  its queries run under the row-level policies of the caller. The policies of the payments
  table are those of its migration: a row may be inserted when its \<^verbatim>\<open>user_id\<close> is the
  caller, read when it is the caller's or the caller is an admin, and updated only when the
  caller is an admin. The function \<^verbatim>\<open>has_role\<close> of those policies is declared in a
  migration that is not among the sources; its result for the admin role is a parameter of
  the store, the set \<open>admins\<close> of the users it accepts. The policies of the orders, order
  items and product variants tables are not among the sources either, and queries on those
  tables do what the code asks for.
\<close>

datatype table = T_payments | T_orders | T_order_items | T_product_variants

datatype store_error = StoreError

record database =
  payments :: "payment list"
  orders :: "order list"
  order_items :: "order_item list"
  product_variants :: "product_variant list"
  admins :: "string set"
  outage :: "table set"

definition has_role_admin :: "database \<Rightarrow> string \<Rightarrow> bool" where
  "has_role_admin db uid = (uid \<in> admins db)"

definition payments_insert_policy :: "string \<Rightarrow> payment \<Rightarrow> bool" where
  "payments_insert_policy caller row = (caller = user_id row)"

definition payments_select_policy :: "database \<Rightarrow> string \<Rightarrow> payment \<Rightarrow> bool" where
  "payments_select_policy db caller row = (caller = user_id row \<or> has_role_admin db caller)"

definition payments_update_policy :: "database \<Rightarrow> string \<Rightarrow> payment \<Rightarrow> bool" where
  "payments_update_policy db caller row = has_role_admin db caller"

definition update_where :: "('r \<Rightarrow> bool) \<Rightarrow> ('r \<Rightarrow> 'r) \<Rightarrow> 'r list \<Rightarrow> 'r list" where
  "update_where sel patch rows = map (\<lambda>r. if sel r then patch r else r) rows"

definition insert_payment ::
  "string \<Rightarrow> payment \<Rightarrow> database \<Rightarrow> store_error option \<times> database" where
  "insert_payment caller row db =
     (if T_payments \<in> outage db then (Some StoreError, db)
      else if \<not> payments_insert_policy caller row then (Some StoreError, db)
      else (None, db\<lparr>payments := payments db @ [row]\<rparr>))"

definition update_payments ::
  "string \<Rightarrow> (payment \<Rightarrow> payment) \<Rightarrow> (payment \<Rightarrow> bool) \<Rightarrow> database
     \<Rightarrow> store_error option \<times> database" where
  "update_payments caller patch sel db =
     (if T_payments \<in> outage db then (Some StoreError, db)
      else (None,
            db\<lparr>payments :=
                 update_where
                   (\<lambda>row. sel row \<and> payments_select_policy db caller row
                            \<and> payments_update_policy db caller row)
                   patch (payments db)\<rparr>))"

definition update_orders ::
  "(order \<Rightarrow> order) \<Rightarrow> (order \<Rightarrow> bool) \<Rightarrow> database \<Rightarrow> store_error option \<times> database" where
  "update_orders patch sel db =
     (if T_orders \<in> outage db then (Some StoreError, db)
      else (None, db\<lparr>orders := update_where sel patch (orders db)\<rparr>))"

definition update_product_variants ::
  "(product_variant \<Rightarrow> product_variant) \<Rightarrow> (product_variant \<Rightarrow> bool) \<Rightarrow> database
     \<Rightarrow> store_error option \<times> database" where
  "update_product_variants patch sel db =
     (if T_product_variants \<in> outage db then (Some StoreError, db)
      else (None, db\<lparr>product_variants := update_where sel patch (product_variants db)\<rparr>))"

text \<open>
  \<^verbatim>\<open>.select(...).eq(...).single()\<close>: the data is the row when exactly one row matches,
  and null (with an error) when none or several match or the table is unavailable.
\<close>

definition select_single_variant ::
  "(product_variant \<Rightarrow> bool) \<Rightarrow> database \<Rightarrow> product_variant option" where
  "select_single_variant sel db =
     (if T_product_variants \<in> outage db then None
      else (case filter sel (product_variants db) of [row] \<Rightarrow> Some row | _ \<Rightarrow> None))"

section \<open>The signature verifier\<close>

text \<open>
  \<^verbatim>\<open>createHmacSha256\<close> encodes the secret and the message as bytes, signs with the
  platform's HMAC primitive keyed for SHA-256 and returns the lower-case hexadecimal text
  of the digest. The primitive \<^verbatim>\<open>crypto.subtle.sign\<close> belongs to the runtime, not to the
  repository: it is the parameter \<open>sign\<close> (key bytes, message bytes, digest bytes).
\<close>

type_synonym bytes = "8 word list"
type_synonym hmac_sign = "bytes \<Rightarrow> bytes \<Rightarrow> bytes"

definition TextEncoder_encode :: "string \<Rightarrow> bytes" where
  "TextEncoder_encode s = map of_char s"

definition TextDecoder_decode :: "bytes \<Rightarrow> string" where
  "TextDecoder_decode bs = map (\<lambda>b. char_of (unat b)) bs"

definition hexTable :: bytes where
  "hexTable = TextEncoder_encode ''0123456789abcdef''"

fun hexEncode :: "bytes \<Rightarrow> bytes" where
  "hexEncode [] = []"
| "hexEncode (v # src) =
     hexTable ! unat (drop_bit 4 v) # hexTable ! unat (v AND 0x0f) # hexEncode src"

definition createHmacSha256 :: "hmac_sign \<Rightarrow> string \<Rightarrow> string \<Rightarrow> string" where
  "createHmacSha256 sign secret message =
     (let keyData = TextEncoder_encode secret;
          messageData = TextEncoder_encode message;
          signature = sign keyData messageData
      in TextDecoder_decode (hexEncode signature))"

text \<open>
  The check of \<^verbatim>\<open>verify-payment\<close>: the body is
  \<^verbatim>\<open>razorpay_order_id + '|' + razorpay_payment_id\<close>, and the supplied signature is
  accepted when it is the same string as the expected one (the source tests
  \<^verbatim>\<open>expectedSignature !== razorpay_signature\<close> for the rejection).
\<close>

definition signature_matches :: "hmac_sign \<Rightarrow> string \<Rightarrow> string \<Rightarrow> string \<Rightarrow> string \<Rightarrow> bool" where
  "signature_matches sign secret rzp_order_id rzp_payment_id rzp_signature =
     (let body = rzp_order_id @ ''|'' @ rzp_payment_id;
          expectedSignature = createHmacSha256 sign secret body
      in \<not> (expectedSignature \<noteq> rzp_signature))"

section \<open>The payment function (server)\<close>

text \<open>
  The request as the function reads it: the HTTP method, the user the identity provider
  returns for the Authorization header (\<open>None\<close> when it reports an error or no user), and
  the JSON body (\<open>None\<close> when it cannot be parsed, which throws into the outer handler).
\<close>

datatype action =
    CreateOrder string rat
  | VerifyPayment string string string string
  | OtherAction string

record request =
  http_method :: string
  auth_user :: "string option"
  body :: "action option"

text \<open>The responses the function builds, with their HTTP status and \<^verbatim>\<open>valid\<close> field.\<close>

datatype response =
    CorsPreflight
  | Unauthorized
  | RazorpayOrderFailed
  | PaymentRecordFailed
  | RazorpayOrderCreated string string int string
  | PaymentVerificationFailed
  | PaymentVerified
  | InvalidAction
  | ServerError

fun http_status :: "response \<Rightarrow> nat" where
  "http_status CorsPreflight = 200"
| "http_status Unauthorized = 401"
| "http_status RazorpayOrderFailed = 400"
| "http_status PaymentRecordFailed = 500"
| "http_status (RazorpayOrderCreated _ _ _ _) = 200"
| "http_status PaymentVerificationFailed = 400"
| "http_status PaymentVerified = 200"
| "http_status InvalidAction = 400"
| "http_status ServerError = 500"

fun valid_field :: "response \<Rightarrow> bool option" where
  "valid_field PaymentVerificationFailed = Some False"
| "valid_field PaymentVerified = Some True"
| "valid_field _ = None"

text \<open>
  The gateway is outside the repository. It receives the order request the function
  posts and either cannot be reached (the call throws), rejects it, or returns the
  remote order.
\<close>

record gateway_request =
  gw_amount :: int
  gw_currency :: string
  gw_receipt :: string
  gw_notes_order_id :: string

datatype gateway_reply =
    GatewayUnreachable
  | GatewayRejected
  | GatewayOrder string int string

type_synonym gateway = "gateway_request \<Rightarrow> gateway_reply"

record environment =
  RAZORPAY_KEY_ID :: string
  RAZORPAY_KEY_SECRET :: string

definition create_order ::
  "gateway \<Rightarrow> environment \<Rightarrow> string \<Rightarrow> string \<Rightarrow> rat \<Rightarrow> database \<Rightarrow> response \<times> database" where
  "create_order razorpay env user orderId amnt db =
     (case razorpay \<lparr>gw_amount = round (amnt * 100), gw_currency = ''INR'',
                      gw_receipt = orderId, gw_notes_order_id = orderId\<rparr> of
        GatewayUnreachable \<Rightarrow> (ServerError, db)
      | GatewayRejected \<Rightarrow> (RazorpayOrderFailed, db)
      | GatewayOrder rzp_id rzp_amount rzp_currency \<Rightarrow>
          (case insert_payment user
                  \<lparr>order_id = orderId, user_id = user, razorpay_order_id = rzp_id,
                   razorpay_payment_id = None, razorpay_signature = None,
                   amount = amnt, currency = ''INR'', status = Pending,
                   error_message = None\<rparr> db of
             (Some paymentError, db') \<Rightarrow> (PaymentRecordFailed, db')
           | (None, db') \<Rightarrow>
               (RazorpayOrderCreated rzp_id (RAZORPAY_KEY_ID env) rzp_amount rzp_currency, db')))"

text \<open>
  \<^verbatim>\<open>verify-payment\<close>, with the caller whose token the store client carries. The three
  patches are the objects the source passes to \<^verbatim>\<open>.update\<close>. On a mismatch the matching payment rows are set to failed and the
  result of that update is not inspected. On a match the payment rows selected by the
  gateway order id are set to completed and the order row selected by \<^verbatim>\<open>orderId\<close> is
  set to confirmed; an error of either update is logged and the function goes on.
\<close>

definition failed_patch :: "payment \<Rightarrow> payment" where
  "failed_patch p = p\<lparr>status := Failed, error_message := Some ''Signature verification failed''\<rparr>"

definition completed_patch :: "string \<Rightarrow> string \<Rightarrow> payment \<Rightarrow> payment" where
  "completed_patch rzp_payment_id rzp_signature p =
     p\<lparr>razorpay_payment_id := Some rzp_payment_id, razorpay_signature := Some rzp_signature,
       status := Completed\<rparr>"

definition confirmed_patch :: "order \<Rightarrow> order" where
  "confirmed_patch ord = ord\<lparr>order_status := OrderConfirmed, payment_method := ''razorpay''\<rparr>"

definition verify_payment ::
  "hmac_sign \<Rightarrow> environment \<Rightarrow> string \<Rightarrow> string \<Rightarrow> string \<Rightarrow> string \<Rightarrow> string
     \<Rightarrow> database \<Rightarrow> response \<times> database" where
  "verify_payment sign env user rzp_order_id rzp_payment_id rzp_signature orderId db =
     (if \<not> signature_matches sign (RAZORPAY_KEY_SECRET env) rzp_order_id rzp_payment_id rzp_signature
      then
        (let (_, db1) = update_payments user failed_patch
                          (\<lambda>p. razorpay_order_id p = rzp_order_id) db
         in (PaymentVerificationFailed, db1))
      else
        (let (updatePaymentError, db1) =
               update_payments user (completed_patch rzp_payment_id rzp_signature)
                 (\<lambda>p. razorpay_order_id p = rzp_order_id) db;
             (updateOrderError, db2) =
               update_orders confirmed_patch (\<lambda>ord. id_order ord = orderId) db1
         in (PaymentVerified, db2)))"

definition serve ::
  "hmac_sign \<Rightarrow> gateway \<Rightarrow> environment \<Rightarrow> request \<Rightarrow> database \<Rightarrow> response \<times> database" where
  "serve sign razorpay env req db =
     (if http_method req = ''OPTIONS'' then (CorsPreflight, db)
      else
        (case auth_user req of
           None \<Rightarrow> (Unauthorized, db)
         | Some user \<Rightarrow>
             (case body req of
                None \<Rightarrow> (ServerError, db)
              | Some (CreateOrder orderId amnt) \<Rightarrow> create_order razorpay env user orderId amnt db
              | Some (VerifyPayment rzp_order_id rzp_payment_id rzp_signature orderId) \<Rightarrow>
                  verify_payment sign env user rzp_order_id rzp_payment_id rzp_signature orderId db
              | Some (OtherAction _) \<Rightarrow> (InvalidAction, db))))"

section \<open>The cart and the checkout page (client)\<close>

text \<open>
  \<^verbatim>\<open>addItem\<close>, \<^verbatim>\<open>removeItem\<close>, \<^verbatim>\<open>updateQuantity\<close> and \<^verbatim>\<open>clearCart\<close> of the cart
  context. \<^verbatim>\<open>addItem\<close> adds the quantity to the first entry with the same variant, or
  appends the item.
\<close>

fun addItem :: "cart_item \<Rightarrow> cart_item list \<Rightarrow> cart_item list" where
  "addItem item [] = [item]"
| "addItem item (i # current) =
     (if variantId i = variantId item then i\<lparr>quantity := quantity i + quantity item\<rparr> # current
      else i # addItem item current)"

definition removeItem :: "string \<Rightarrow> cart_item list \<Rightarrow> cart_item list" where
  "removeItem vid current = filter (\<lambda>item. variantId item \<noteq> vid) current"

definition updateQuantity :: "string \<Rightarrow> int \<Rightarrow> cart_item list \<Rightarrow> cart_item list" where
  "updateQuantity vid qty current =
     (if qty \<le> 0 then removeItem vid current
      else map (\<lambda>item. if variantId item = vid then item\<lparr>quantity := qty\<rparr> else item) current)"

definition clearCart :: "cart_item list" where
  "clearCart = []"

text \<open>
  The carts the context can hold: it starts empty (or from the cart it saved itself) and
  changes only through the four operations.
\<close>

inductive cart_state :: "cart_item list \<Rightarrow> bool" where
  cart_empty: "cart_state []"
| cart_add: "cart_state current \<Longrightarrow> cart_state (addItem item current)"
| cart_remove: "cart_state current \<Longrightarrow> cart_state (removeItem vid current)"
| cart_update: "cart_state current \<Longrightarrow> cart_state (updateQuantity vid qty current)"
| cart_clear: "cart_state current \<Longrightarrow> cart_state clearCart"

code_pred cart_state .

text \<open>The order item the checkout page inserts for a cart entry.\<close>

definition order_item_of :: "string \<Rightarrow> cart_item \<Rightarrow> order_item" where
  "order_item_of oid item =
     \<lparr>oi_order_id = oid, oi_product_id = productId item, oi_variant_id = variantId item,
      oi_product_name = name item, oi_quantity = quantity item, oi_unit_price = price item,
      oi_total_price = price item * of_int (quantity item)\<rparr>"

text \<open>
  The loop of \<^verbatim>\<open>handleSubmit\<close> that inserts one order item per cart entry; the first
  failing insert throws and ends the loop.
\<close>

fun insert_order_items :: "string \<Rightarrow> cart_item list \<Rightarrow> database \<Rightarrow> store_error + database" where
  "insert_order_items oid [] db = Inr db"
| "insert_order_items oid (item # items) db =
     (if T_order_items \<in> outage db then Inl StoreError
      else insert_order_items oid items
             (db\<lparr>order_items := order_items db @ [order_item_of oid item]\<rparr>))"

text \<open>
  The inventory loop of the payment handler: for each cart entry the stock of its variant
  is read, and when a row comes back, the stock minus the entry's quantity is written to
  the rows with that id. The result of the write is not inspected.
\<close>

definition decrement :: "string \<Rightarrow> int \<Rightarrow> database \<Rightarrow> database" where
  "decrement vid qty db =
     (case select_single_variant (\<lambda>v. id_variant v = vid) db of
        None \<Rightarrow> db
      | Some variant \<Rightarrow>
          snd (update_product_variants
                 (\<lambda>v. v\<lparr>stock_quantity := stock_quantity variant - qty\<rparr>)
                 (\<lambda>v. id_variant v = vid) db))"

fun update_inventory :: "cart_item list \<Rightarrow> database \<Rightarrow> database" where
  "update_inventory [] db = db"
| "update_inventory (item # items) db =
     update_inventory items (decrement (variantId item) (quantity item) db)"

text \<open>
  \<^verbatim>\<open>supabase.functions.invoke\<close> reports an error for a response outside 2xx and the
  parsed body otherwise. The handler goes on only when there is no error and the body's
  \<^verbatim>\<open>valid\<close> is true.
\<close>

definition invoke_error :: "response \<Rightarrow> bool" where
  "invoke_error resp = (http_status resp < 200 \<or> 300 \<le> http_status resp)"

datatype handler_outcome =
    ToastError string
  | ToastSuccess string

record gateway_response =
  resp_razorpay_order_id :: string
  resp_razorpay_payment_id :: string
  resp_razorpay_signature :: string

text \<open>
  The \<^verbatim>\<open>handler\<close> the checkout page gives to the gateway widget. It closes over the
  session's user, the order just created and the cart items of that render; its result is
  the toast shown, the cart afterwards and the database afterwards.
\<close>

definition handler ::
  "hmac_sign \<Rightarrow> gateway \<Rightarrow> environment \<Rightarrow> string option \<Rightarrow> string \<Rightarrow> cart_item list
     \<Rightarrow> gateway_response \<Rightarrow> database \<Rightarrow> handler_outcome \<times> cart_item list \<times> database" where
  "handler sign razorpay env session_user order_id_created items response db =
     (let (verifyData, db1) =
            serve sign razorpay env
              \<lparr>http_method = ''POST'', auth_user = session_user,
               body = Some (VerifyPayment (resp_razorpay_order_id response)
                              (resp_razorpay_payment_id response)
                              (resp_razorpay_signature response) order_id_created)\<rparr> db
      in if invoke_error verifyData \<or> valid_field verifyData \<noteq> Some True
         then (ToastError ''Payment verification failed. Please contact support.'', items, db1)
         else (ToastSuccess ''Payment successful! Order confirmed.'', clearCart,
               update_inventory items db1))"

section \<open>Observations and sample data\<close>

text \<open>
  The stock the handler reads for a variant id
  (\<^verbatim>\<open>.select('stock_quantity').eq('id', item.variantId).single()\<close>).
\<close>

definition stock_of :: "database \<Rightarrow> string \<Rightarrow> int option" where
  "stock_of db vid =
     map_option stock_quantity (select_single_variant (\<lambda>v. id_variant v = vid) db)"

text \<open>
  A stand-in for the runtime's signing primitive, used only to run the model on concrete
  inputs: the digest is the key bytes followed by the message bytes. The theorems hold for
  every primitive.
\<close>

definition test_sign :: hmac_sign where
  "test_sign key msg = key @ msg"

definition test_env :: environment where
  "test_env = \<lparr>RAZORPAY_KEY_ID = ''rzp_test'', RAZORPAY_KEY_SECRET = ''k''\<rparr>"

definition test_gateway :: gateway where
  "test_gateway rq = GatewayOrder ''r9'' (gw_amount rq) (gw_currency rq)"

text \<open>
  The scenario of the specification: an order of alice with total 59.99 (subtotal 49.99,
  shipping 10.00), one cart entry of quantity 2 on a variant with stock 5, and the pending
  payment of that order with gateway order id \<open>r1\<close>. A second order belongs to bob.
\<close>

definition pay1 :: payment where
  "pay1 = \<lparr>order_id = ''ord1'', user_id = ''alice'', razorpay_order_id = ''r1'',
           razorpay_payment_id = None, razorpay_signature = None, amount = 5999 / 100,
           currency = ''INR'', status = Pending, error_message = None\<rparr>"

definition ord1 :: order where
  "ord1 = \<lparr>id_order = ''ord1'', owner_id = ''alice'', order_status = OrderPending,
           subtotal = 4999 / 100, shipping_cost = 10, total = 5999 / 100,
           payment_method = ''razorpay''\<rparr>"

definition ord2 :: order where
  "ord2 = \<lparr>id_order = ''ord2'', owner_id = ''bob'', order_status = OrderPending,
           subtotal = 20, shipping_cost = 10, total = 30, payment_method = ''razorpay''\<rparr>"

definition item1 :: cart_item where
  "item1 = \<lparr>productId = ''prod1'', variantId = ''v1'', name = ''Shirt'', size = ''M'',
            color = ''blue'', price = 4999 / 200, quantity = 2\<rparr>"

definition var1 :: product_variant where
  "var1 = \<lparr>id_variant = ''v1'', stock_quantity = 5\<rparr>"

definition db0 :: database where
  "db0 = \<lparr>payments = [pay1], orders = [ord1, ord2],
          order_items = [order_item_of ''ord1'' item1],
          product_variants = [var1], admins = {}, outage = {}\<rparr>"

text \<open>The same database with alice holding the admin role.\<close>

definition db0a :: database where
  "db0a = db0\<lparr>admins := {''alice''}\<rparr>"

text \<open>The callback payload of the gateway for \<open>r1\<close>, with the signature \<open>test_sign\<close> yields.\<close>

definition sig1 :: string where
  "sig1 = ''6b72317c7031''"

definition resp1 :: gateway_response where
  "resp1 = \<lparr>resp_razorpay_order_id = ''r1'', resp_razorpay_payment_id = ''p1'',
            resp_razorpay_signature = sig1\<rparr>"

text \<open>
  The database after the handler has run once on \<open>db0a\<close>, and after it has run twice;
  and the database after it has run once on \<open>db0\<close>, where alice is a customer.
\<close>

definition db1 :: database where
  "db1 = \<lparr>payments = [completed_patch ''p1'' sig1 pay1], orders = [confirmed_patch ord1, ord2],
          order_items = [order_item_of ''ord1'' item1],
          product_variants = [var1\<lparr>stock_quantity := 3\<rparr>], admins = {''alice''},
          outage = {}\<rparr>"

definition db2 :: database where
  "db2 = db1\<lparr>product_variants := [var1\<lparr>stock_quantity := 1\<rparr>]\<rparr>"

definition db1c :: database where
  "db1c = db0\<lparr>orders := [confirmed_patch ord1, ord2],
              product_variants := [var1\<lparr>stock_quantity := 3\<rparr>]\<rparr>"

text \<open>The payment row \<^verbatim>\<open>create-order\<close> writes when mallory asks to pay alice's order.\<close>

definition pay_mallory :: payment where
  "pay_mallory = \<lparr>order_id = ''ord1'', user_id = ''mallory'', razorpay_order_id = ''r9'',
                  razorpay_payment_id = None, razorpay_signature = None, amount = 5999 / 100,
                  currency = ''INR'', status = Pending, error_message = None\<rparr>"

section \<open>Rows, filters and updates\<close>

lemma filter_update_where_same:
  "(\<And>r. sel r \<Longrightarrow> sel (patch r)) \<Longrightarrow>
   filter sel (update_where sel patch rows) = map patch (filter sel rows)"
  by (induction rows) (auto simp: update_where_def)



lemma filter_variant_other:
  "w \<noteq> vid \<Longrightarrow>
   filter (\<lambda>v. id_variant v = w)
     (update_where (\<lambda>v. id_variant v = vid) (\<lambda>v. v\<lparr>stock_quantity := n\<rparr>) rows)
   = filter (\<lambda>v. id_variant v = w) rows"
  by (induction rows) (auto simp: update_where_def)

lemma update_where_mem:
  "r \<in> set rows \<Longrightarrow> sel r \<Longrightarrow> patch r \<in> set (update_where sel patch rows)"
  by (induction rows) (auto simp: update_where_def)

lemma update_where_cases:
  "r' \<in> set (update_where sel patch rows) \<Longrightarrow>
   (\<exists>r \<in> set rows. sel r \<and> r' = patch r) \<or> (r' \<in> set rows \<and> \<not> sel r')"
  by (induction rows) (auto simp: update_where_def split: if_splits)

lemma confirmed_rows:
  assumes "ord' \<in> set (update_where (\<lambda>ord. id_order ord = oid) confirmed_patch rows)"
    and "id_order ord' = oid"
  shows "order_status ord' = OrderConfirmed \<and> payment_method ord' = ''razorpay''"
proof -
  from update_where_cases [OF assms(1)] assms(2)
  obtain r where "ord' = confirmed_patch r" by blast
  then show ?thesis by (simp add: confirmed_patch_def)
qed

lemma completed_rows:
  assumes "p' \<in> set (update_where (\<lambda>p. razorpay_order_id p = rid) (completed_patch pid sg) rows)"
    and "razorpay_order_id p' = rid"
  shows "status p' = Completed \<and> razorpay_payment_id p' = Some pid \<and> razorpay_signature p' = Some sg"
proof -
  from update_where_cases [OF assms(1)] assms(2)
  obtain r where "p' = completed_patch pid sg r" by blast
  then show ?thesis by (simp add: completed_patch_def)
qed

lemma failed_rows:
  assumes "p' \<in> set (update_where (\<lambda>p. razorpay_order_id p = rid) failed_patch rows)"
    and "razorpay_order_id p' = rid"
  shows "status p' = Failed \<and> error_message p' = Some ''Signature verification failed''"
proof -
  from update_where_cases [OF assms(1)] assms(2)
  obtain r where "p' = failed_patch r" by blast
  then show ?thesis by (simp add: failed_patch_def)
qed

section \<open>The signature verifier\<close>











section \<open>The verification request and the payment handler\<close>

lemma update_where_policy:
  "update_where
     (\<lambda>row. sel row \<and> payments_select_policy db caller row \<and> payments_update_policy db caller row)
     patch rows
   = (if has_role_admin db caller then update_where sel patch rows else rows)"
  by (induction rows)
     (simp_all add: update_where_def payments_select_policy_def payments_update_policy_def)

lemma verify_payment_mismatch:
  "\<not> signature_matches sign (RAZORPAY_KEY_SECRET env) rid pid sg \<Longrightarrow>
   verify_payment sign env u rid pid sg oid db =
     (PaymentVerificationFailed,
      if T_payments \<in> outage db \<or> \<not> has_role_admin db u then db
      else db\<lparr>payments := update_where (\<lambda>p. razorpay_order_id p = rid) failed_patch (payments db)\<rparr>)"
  by (simp add: verify_payment_def update_payments_def update_where_policy)

lemma verify_payment_match:
  "signature_matches sign (RAZORPAY_KEY_SECRET env) rid pid sg \<Longrightarrow>
   verify_payment sign env u rid pid sg oid db =
     (PaymentVerified,
      db\<lparr>payments :=
           (if T_payments \<in> outage db \<or> \<not> has_role_admin db u then payments db
            else update_where (\<lambda>p. razorpay_order_id p = rid) (completed_patch pid sg) (payments db)),
         orders :=
           (if T_orders \<in> outage db then orders db
            else update_where (\<lambda>ord. id_order ord = oid) confirmed_patch (orders db))\<rparr>)"
  by (simp add: verify_payment_def update_payments_def update_orders_def update_where_policy)

lemma serve_verify:
  "serve sign gw env
     \<lparr>http_method = ''POST'', auth_user = Some u, body = Some (VerifyPayment rid pid sg oid)\<rparr> db
   = verify_payment sign env u rid pid sg oid db"
  by (simp add: serve_def)

lemma sig1_matches:
  "signature_matches test_sign (RAZORPAY_KEY_SECRET test_env) ''r1'' ''p1'' sig1"
  by code_simp

lemma tampered_sig_mismatch:
  "\<not> signature_matches test_sign (RAZORPAY_KEY_SECRET test_env) ''r1'' ''p1'' ''6b72317c7032''"
  by code_simp

lemma handler_mismatch:
  "\<not> signature_matches sign (RAZORPAY_KEY_SECRET env) rid pid sg \<Longrightarrow>
   handler sign gw env (Some u) oid items
     \<lparr>resp_razorpay_order_id = rid, resp_razorpay_payment_id = pid, resp_razorpay_signature = sg\<rparr> db
   = (ToastError ''Payment verification failed. Please contact support.'', items,
      snd (verify_payment sign env u rid pid sg oid db))"
  by (simp add: handler_def serve_verify verify_payment_mismatch invoke_error_def)

lemma handler_match:
  "signature_matches sign (RAZORPAY_KEY_SECRET env) rid pid sg \<Longrightarrow>
   handler sign gw env (Some u) oid items
     \<lparr>resp_razorpay_order_id = rid, resp_razorpay_payment_id = pid, resp_razorpay_signature = sg\<rparr> db
   = (ToastSuccess ''Payment successful! Order confirmed.'', clearCart,
      update_inventory items (snd (verify_payment sign env u rid pid sg oid db)))"
  by (simp add: handler_def serve_verify verify_payment_match invoke_error_def)

lemma completed_patch_eq:
  "completed_patch pid sg =
     (\<lambda>p. p\<lparr>razorpay_payment_id := Some pid, razorpay_signature := Some sg, status := Completed\<rparr>)"
  by (rule ext) (simp add: completed_patch_def)

lemma confirmed_patch_eq:
  "confirmed_patch = (\<lambda>ord. ord\<lparr>order_status := OrderConfirmed, payment_method := ''razorpay''\<rparr>)"
  by (rule ext) (simp add: confirmed_patch_def)

lemma failed_patch_eq:
  "failed_patch =
     (\<lambda>p. p\<lparr>status := Failed, error_message := Some ''Signature verification failed''\<rparr>)"
  by (rule ext) (simp add: failed_patch_def)

text \<open>
  Claim C10, as the code has it. The payment rows a verified request can change are
  selected by the gateway order id alone, and the order rows it confirms by the supplied
  order id alone; nothing compares the order of the payment row with that id. When the
  orders table takes the write, every order row with the supplied id is confirmed, also
  when the payment row with the gateway order id references another order. The payment
  rows with the gateway order id get the payment id, the signature and the status
  completed when the payments table takes the caller's update; otherwise no payment row
  changes.
\<close>

theorem confirm_updates_unlinked:
  assumes "signature_matches sign (RAZORPAY_KEY_SECRET env) rid pid sg"
    and "T_orders \<notin> outage db"
    and "p \<in> set (payments db)" and "razorpay_order_id p = rid" and "order_id p \<noteq> oid"
    and "ord \<in> set (orders db)" and "id_order ord = oid"
    and "verify_payment sign env u rid pid sg oid db = (resp, db')"
  shows "resp = PaymentVerified
    \<and> orders db' =
        update_where (\<lambda>ord. id_order ord = oid)
          (\<lambda>ord. ord\<lparr>order_status := OrderConfirmed, payment_method := ''razorpay''\<rparr>) (orders db)
    \<and> ord\<lparr>order_status := OrderConfirmed, payment_method := ''razorpay''\<rparr> \<in> set (orders db')
    \<and> (\<forall>ord' \<in> set (orders db'). id_order ord' = oid \<longrightarrow> order_status ord' = OrderConfirmed)
    \<and> payments db' =
        (if T_payments \<notin> outage db \<and> has_role_admin db u
         then update_where (\<lambda>p. razorpay_order_id p = rid)
                (\<lambda>p. p\<lparr>razorpay_payment_id := Some pid, razorpay_signature := Some sg,
                       status := Completed\<rparr>) (payments db)
         else payments db)
    \<and> (\<exists>p' \<in> set (payments db'). razorpay_order_id p' = rid \<and> order_id p' \<noteq> oid)"
proof -
  let ?done = "\<lambda>p. p\<lparr>razorpay_payment_id := Some pid, razorpay_signature := Some sg,
                       status := Completed\<rparr>"
  let ?conf = "\<lambda>ord. ord\<lparr>order_status := OrderConfirmed, payment_method := ''razorpay''\<rparr>"
  from assms(8) have res: "resp = fst (verify_payment sign env u rid pid sg oid db)"
    "db' = snd (verify_payment sign env u rid pid sg oid db)" by simp_all
  from assms(1) have r: "resp = PaymentVerified"
    unfolding res by (simp add: verify_payment_match)
  from assms(1,2) have os: "orders db' = update_where (\<lambda>ord. id_order ord = oid) ?conf (orders db)"
    unfolding res by (simp add: verify_payment_match confirmed_patch_eq)
  from assms(1) have ps: "payments db' =
        (if T_payments \<notin> outage db \<and> has_role_admin db u
         then update_where (\<lambda>p. razorpay_order_id p = rid) ?done (payments db)
         else payments db)"
    unfolding res by (simp add: verify_payment_match completed_patch_eq)
  from update_where_mem [of ord "orders db" "\<lambda>ord. id_order ord = oid" ?conf] assms(6,7)
  have c1: "?conf ord \<in> set (orders db')"
    unfolding os by simp
  have c2: "\<forall>ord' \<in> set (orders db'). id_order ord' = oid \<longrightarrow> order_status ord' = OrderConfirmed"
    using confirmed_rows unfolding os confirmed_patch_eq [symmetric] by blast
  have c3: "\<exists>p' \<in> set (payments db'). razorpay_order_id p' = rid \<and> order_id p' \<noteq> oid"
  proof (cases "T_payments \<notin> outage db \<and> has_role_admin db u")
    case True
    with update_where_mem [of p "payments db" "\<lambda>p. razorpay_order_id p = rid" ?done] assms(3,4)
    have "?done p \<in> set (payments db')"
      unfolding ps by simp
    moreover from assms(4,5) have "razorpay_order_id (?done p) = rid" "order_id (?done p) \<noteq> oid"
      by simp_all
    ultimately show ?thesis by blast
  next
    case False
    with assms(3) have "p \<in> set (payments db')" unfolding ps by auto
    with assms(4,5) show ?thesis by blast
  qed
  show ?thesis
    by (intro conjI) (fact r, fact os, fact c1, fact c2, fact ps, fact c3)
qed

theorem confirm_updates_unlinked_witness:
  "order_id pay1 = ''ord1''
   \<and> razorpay_order_id pay1 = ''r1''
   \<and> fst (verify_payment test_sign test_env ''alice'' ''r1'' ''p1'' sig1 ''ord2'' db0a) = PaymentVerified
   \<and> orders (snd (verify_payment test_sign test_env ''alice'' ''r1'' ''p1'' sig1 ''ord2'' db0a))
       = [ord1, ord2\<lparr>order_status := OrderConfirmed, payment_method := ''razorpay''\<rparr>]
   \<and> payments (snd (verify_payment test_sign test_env ''alice'' ''r1'' ''p1'' sig1 ''ord2'' db0a))
       = [pay1\<lparr>razorpay_payment_id := Some ''p1'', razorpay_signature := Some sig1,
               status := Completed\<rparr>]"
proof -
  have a: "T_orders \<notin> outage db0a" "pay1 \<in> set (payments db0a)"
    "razorpay_order_id pay1 = ''r1''" "order_id pay1 \<noteq> ''ord2''" "ord2 \<in> set (orders db0a)"
    "id_order ord2 = ''ord2''"
    by (simp_all add: db0a_def db0_def pay1_def ord2_def)
  have b: "order_id pay1 = ''ord1''" "T_payments \<notin> outage db0a \<and> has_role_admin db0a ''alice''"
    by (simp_all add: db0a_def db0_def pay1_def has_role_admin_def)
  have upd: "update_where (\<lambda>p. razorpay_order_id p = ''r1'')
        (\<lambda>p. p\<lparr>razorpay_payment_id := Some ''p1'', razorpay_signature := Some sig1,
               status := Completed\<rparr>) (payments db0a)
      = [pay1\<lparr>razorpay_payment_id := Some ''p1'', razorpay_signature := Some sig1,
               status := Completed\<rparr>]"
    "update_where (\<lambda>ord. id_order ord = ''ord2'')
        (\<lambda>ord. ord\<lparr>order_status := OrderConfirmed, payment_method := ''razorpay''\<rparr>) (orders db0a)
      = [ord1, ord2\<lparr>order_status := OrderConfirmed, payment_method := ''razorpay''\<rparr>]"
    by (simp_all add: update_where_def db0a_def db0_def pay1_def ord1_def ord2_def)
  note t = confirm_updates_unlinked [OF sig1_matches a prod.collapse [symmetric]]
  from t have "fst (verify_payment test_sign test_env ''alice'' ''r1'' ''p1'' sig1 ''ord2'' db0a) = PaymentVerified"
    by blast
  moreover from t have "orders (snd (verify_payment test_sign test_env ''alice'' ''r1'' ''p1'' sig1 ''ord2'' db0a))
       = [ord1, ord2\<lparr>order_status := OrderConfirmed, payment_method := ''razorpay''\<rparr>]"
    unfolding upd(2) [symmetric] by blast
  moreover from t b(2) have "payments (snd (verify_payment test_sign test_env ''alice'' ''r1'' ''p1'' sig1 ''ord2'' db0a))
       = [pay1\<lparr>razorpay_payment_id := Some ''p1'', razorpay_signature := Some sig1,
               status := Completed\<rparr>]"
    unfolding upd(1) [symmetric] by presburger
  ultimately show ?thesis using a(3) b(1) by simp
qed

text \<open>
  Claim C10, as stated, fails: with the orders table rejecting the write, a verified
  payload is answered with success and the order with the supplied id stays pending.
\<close>

theorem confirm_updates_unlinked_counterexample:
  "signature_matches test_sign (RAZORPAY_KEY_SECRET test_env) ''r1'' ''p1'' sig1
   \<and> verify_payment test_sign test_env ''alice'' ''r1'' ''p1'' sig1 ''ord2'' (db0\<lparr>outage := {T_orders}\<rparr>)
     = (PaymentVerified, db0\<lparr>outage := {T_orders}\<rparr>)
   \<and> orders (db0\<lparr>outage := {T_orders}\<rparr>) = [ord1, ord2]
   \<and> id_order ord2 = ''ord2''
   \<and> order_status ord2 = OrderPending"
proof -
  have "verify_payment test_sign test_env ''alice'' ''r1'' ''p1'' sig1 ''ord2'' (db0\<lparr>outage := {T_orders}\<rparr>)
     = (PaymentVerified, db0\<lparr>outage := {T_orders}\<rparr>)"
    by (simp add: verify_payment_match [OF sig1_matches] has_role_admin_def db0_def)
  moreover have "orders (db0\<lparr>outage := {T_orders}\<rparr>) = [ord1, ord2]" "id_order ord2 = ''ord2''"
    "order_status ord2 = OrderPending"
    by (simp_all add: db0_def ord2_def)
  ultimately show ?thesis using sig1_matches by simp
qed

lemma tampered_signature_effect:
  "\<not> signature_matches sign (RAZORPAY_KEY_SECRET env) rid pid sg \<Longrightarrow>
   handler sign gw env (Some u) oid items
     \<lparr>resp_razorpay_order_id = rid, resp_razorpay_payment_id = pid, resp_razorpay_signature = sg\<rparr> db
   = (ToastError ''Payment verification failed. Please contact support.'', items,
      if T_payments \<in> outage db \<or> \<not> has_role_admin db u then db
      else db\<lparr>payments :=
                update_where (\<lambda>p. razorpay_order_id p = rid)
                  (\<lambda>p. p\<lparr>status := Failed,
                         error_message := Some ''Signature verification failed''\<rparr>)
                  (payments db)\<rparr>)"
  by (simp add: handler_mismatch verify_payment_mismatch failed_patch_eq)

text \<open>
  Claim C2. Alice is a customer and the store is available. Her request with a tampered
  signature is answered with \<open>valid: false\<close> and the handler shows the error, but the
  update of the payment row runs under her token and the payments table lets only admins
  update: the row stays pending with no error message. The same request from an admin
  marks the row failed with the message, and with the payments table rejecting writes the
  row stays as it is for an admin too.
\<close>

theorem tampered_signature_row_stays_pending:
  "\<not> signature_matches test_sign (RAZORPAY_KEY_SECRET test_env) ''r1'' ''p1'' ''6b72317c7032''
   \<and> serve test_sign test_gateway test_env
       \<lparr>http_method = ''POST'', auth_user = Some ''alice'',
        body = Some (VerifyPayment ''r1'' ''p1'' ''6b72317c7032'' ''ord1'')\<rparr> db0
     = (PaymentVerificationFailed, db0)
   \<and> handler test_sign test_gateway test_env (Some ''alice'') ''ord1'' [item1]
       \<lparr>resp_razorpay_order_id = ''r1'', resp_razorpay_payment_id = ''p1'',
        resp_razorpay_signature = ''6b72317c7032''\<rparr> db0
     = (ToastError ''Payment verification failed. Please contact support.'', [item1], db0)
   \<and> payments db0 = [pay1]
   \<and> razorpay_order_id pay1 = ''r1''
   \<and> status pay1 = Pending
   \<and> error_message pay1 = None
   \<and> serve test_sign test_gateway test_env
       \<lparr>http_method = ''POST'', auth_user = Some ''alice'',
        body = Some (VerifyPayment ''r1'' ''p1'' ''6b72317c7032'' ''ord1'')\<rparr> db0a
     = (PaymentVerificationFailed,
        db0a\<lparr>payments := [pay1\<lparr>status := Failed,
                                 error_message := Some ''Signature verification failed''\<rparr>]\<rparr>)
   \<and> serve test_sign test_gateway test_env
       \<lparr>http_method = ''POST'', auth_user = Some ''alice'',
        body = Some (VerifyPayment ''r1'' ''p1'' ''6b72317c7032'' ''ord1'')\<rparr>
       (db0a\<lparr>outage := {T_payments}\<rparr>)
     = (PaymentVerificationFailed, db0a\<lparr>outage := {T_payments}\<rparr>)"
proof -
  note m = tampered_sig_mismatch
  have c: "\<not> has_role_admin db0 ''alice''" "T_payments \<notin> outage db0"
    "has_role_admin db0a ''alice''" "T_payments \<notin> outage db0a"
    by (simp_all add: has_role_admin_def db0_def db0a_def)
  have s0: "serve test_sign test_gateway test_env
       \<lparr>http_method = ''POST'', auth_user = Some ''alice'',
        body = Some (VerifyPayment ''r1'' ''p1'' ''6b72317c7032'' ''ord1'')\<rparr> db0
     = (PaymentVerificationFailed, db0)"
    using c(1) by (simp add: serve_verify verify_payment_mismatch [OF m])
  have h0: "handler test_sign test_gateway test_env (Some ''alice'') ''ord1'' [item1]
       \<lparr>resp_razorpay_order_id = ''r1'', resp_razorpay_payment_id = ''p1'',
        resp_razorpay_signature = ''6b72317c7032''\<rparr> db0
     = (ToastError ''Payment verification failed. Please contact support.'', [item1], db0)"
    using c(1) by (simp add: tampered_signature_effect [OF m])
  have p: "payments db0 = [pay1]" "razorpay_order_id pay1 = ''r1''" "status pay1 = Pending"
    "error_message pay1 = None"
    by (simp_all add: db0_def pay1_def)
  have sa: "serve test_sign test_gateway test_env
       \<lparr>http_method = ''POST'', auth_user = Some ''alice'',
        body = Some (VerifyPayment ''r1'' ''p1'' ''6b72317c7032'' ''ord1'')\<rparr> db0a
     = (PaymentVerificationFailed,
        db0a\<lparr>payments := [pay1\<lparr>status := Failed,
                                 error_message := Some ''Signature verification failed''\<rparr>]\<rparr>)"
    using c(3,4) by (simp add: serve_verify verify_payment_mismatch [OF m] failed_patch_eq)
       (simp add: db0a_def db0_def update_where_def pay1_def)
  have so: "serve test_sign test_gateway test_env
       \<lparr>http_method = ''POST'', auth_user = Some ''alice'',
        body = Some (VerifyPayment ''r1'' ''p1'' ''6b72317c7032'' ''ord1'')\<rparr>
       (db0a\<lparr>outage := {T_payments}\<rparr>)
     = (PaymentVerificationFailed, db0a\<lparr>outage := {T_payments}\<rparr>)"
    by (simp add: serve_verify verify_payment_mismatch [OF m])
  show ?thesis
    by (intro conjI) (fact m, fact s0, fact h0, fact p(1), fact p(2), fact p(3), fact p(4), fact sa, fact so)
qed

section \<open>Requests without a payment row, store failures, and callers\<close>

lemma decrement_frame:
  "payments (decrement vid qty db) = payments db"
  "orders (decrement vid qty db) = orders db"
  "order_items (decrement vid qty db) = order_items db"
  "outage (decrement vid qty db) = outage db"
  "admins (decrement vid qty db) = admins db"
  by (auto simp: decrement_def update_product_variants_def split: option.splits)

lemma update_inventory_frame:
  "payments (update_inventory items db) = payments db \<and>
   orders (update_inventory items db) = orders db \<and>
   order_items (update_inventory items db) = order_items db \<and>
   outage (update_inventory items db) = outage db \<and>
   admins (update_inventory items db) = admins db"
  by (induction items arbitrary: db) (auto simp: decrement_frame)

lemma create_order_not_unauthorized:
  "create_order gw env user orderId amnt db \<noteq> (Unauthorized, db')"
  by (simp add: create_order_def insert_payment_def split: gateway_reply.splits)

lemma verify_payment_not_unauthorized:
  "verify_payment sign env u rid pid sg oid db \<noteq> (Unauthorized, db')"
  by (cases "signature_matches sign (RAZORPAY_KEY_SECRET env) rid pid sg")
     (simp_all add: verify_payment_match verify_payment_mismatch)







text \<open>
  Claim C5. With the payments and orders tables rejecting writes, the verified request
  still answers 200 with \<open>valid: true\<close> and nothing is written; with only the orders
  table failing, the handler announces the confirmed order although the order row stays
  pending. The sibling action \<^verbatim>\<open>create-order\<close> answers 500 when its write fails.
\<close>

theorem store_failure_swallowed:
  "serve test_sign test_gateway test_env
     \<lparr>http_method = ''POST'', auth_user = Some ''alice'',
      body = Some (VerifyPayment ''r1'' ''p1'' sig1 ''ord1'')\<rparr> (db0\<lparr>outage := {T_payments, T_orders}\<rparr>)
     = (PaymentVerified, db0\<lparr>outage := {T_payments, T_orders}\<rparr>)
   \<and> http_status PaymentVerified = 200
   \<and> valid_field PaymentVerified = Some True
   \<and> fst (handler test_sign test_gateway test_env (Some ''alice'') ''ord1'' [item1] resp1
            (db0\<lparr>outage := {T_orders}\<rparr>))
     = ToastSuccess ''Payment successful! Order confirmed.''
   \<and> orders (snd (snd (handler test_sign test_gateway test_env (Some ''alice'') ''ord1'' [item1] resp1
            (db0\<lparr>outage := {T_orders}\<rparr>)))) = [ord1, ord2]
   \<and> order_status ord1 = OrderPending
   \<and> fst (serve test_sign test_gateway test_env
       \<lparr>http_method = ''POST'', auth_user = Some ''alice'',
        body = Some (CreateOrder ''ord1'' (5999 / 100))\<rparr> (db0\<lparr>outage := {T_payments}\<rparr>))
     = PaymentRecordFailed
   \<and> http_status PaymentRecordFailed = 500"
proof -
  have a: "serve test_sign test_gateway test_env
     \<lparr>http_method = ''POST'', auth_user = Some ''alice'',
      body = Some (VerifyPayment ''r1'' ''p1'' sig1 ''ord1'')\<rparr> (db0\<lparr>outage := {T_payments, T_orders}\<rparr>)
     = (PaymentVerified, db0\<lparr>outage := {T_payments, T_orders}\<rparr>)"
    by (simp add: serve_verify verify_payment_match [OF sig1_matches])
  have h: "handler test_sign test_gateway test_env (Some ''alice'') ''ord1'' [item1] resp1
            (db0\<lparr>outage := {T_orders}\<rparr>)
      = (ToastSuccess ''Payment successful! Order confirmed.'', clearCart,
         update_inventory [item1] (snd (verify_payment test_sign test_env ''alice'' ''r1'' ''p1'' sig1 ''ord1''
            (db0\<lparr>outage := {T_orders}\<rparr>))))"
    unfolding resp1_def by (rule handler_match [OF sig1_matches])
  have b: "orders (snd (snd (handler test_sign test_gateway test_env (Some ''alice'') ''ord1'' [item1] resp1
            (db0\<lparr>outage := {T_orders}\<rparr>)))) = [ord1, ord2]"
    unfolding h by (simp add: decrement_frame verify_payment_match [OF sig1_matches] db0_def)
  have c: "fst (serve test_sign test_gateway test_env
       \<lparr>http_method = ''POST'', auth_user = Some ''alice'',
        body = Some (CreateOrder ''ord1'' (5999 / 100))\<rparr> (db0\<lparr>outage := {T_payments}\<rparr>))
     = PaymentRecordFailed"
    by (simp add: serve_def create_order_def test_gateway_def insert_payment_def)
  from a b c show ?thesis by (simp add: h ord1_def)
qed

text \<open>
  Claim C3, as the code has it. A request is answered with \<open>Unauthorized\<close> exactly when
  it is not a preflight and the identity provider yields no user, and such a request
  writes nothing. The owner of the referenced order is never consulted.
\<close>

theorem unauthorized_iff_unauthenticated:
  assumes "serve sign gw env req db = (resp, db')"
  shows "(resp = Unauthorized \<longleftrightarrow> http_method req \<noteq> ''OPTIONS'' \<and> auth_user req = None)
       \<and> (resp = Unauthorized \<longrightarrow> db' = db)"
proof (cases "http_method req = ''OPTIONS''")
  case True
  with assms show ?thesis by (simp add: serve_def)
next
  case False
  show ?thesis
  proof (cases "auth_user req")
    case None
    with False assms show ?thesis by (simp add: serve_def)
  next
    case (Some user)
    have "resp \<noteq> Unauthorized"
    proof (cases "body req")
      case None
      with False Some assms show ?thesis by (auto simp: serve_def)
    next
      case (Some a)
      with False \<open>auth_user req = Some user\<close> assms show ?thesis
        by (cases a)
           (auto simp: serve_def create_order_not_unauthorized verify_payment_not_unauthorized)
    qed
    with Some show ?thesis by simp
  qed
qed

theorem unauthorized_iff_unauthenticated_witness:
  "serve test_sign test_gateway test_env
     \<lparr>http_method = ''POST'', auth_user = None,
      body = Some (VerifyPayment ''r1'' ''p1'' sig1 ''ord1'')\<rparr> db0 = (Unauthorized, db0)
   \<and> serve test_sign test_gateway test_env
     \<lparr>http_method = ''POST'', auth_user = None,
      body = Some (CreateOrder ''ord1'' (5999 / 100))\<rparr> db0 = (Unauthorized, db0)"
proof -
  let ?v = "\<lparr>http_method = ''POST'', auth_user = None,
      body = Some (VerifyPayment ''r1'' ''p1'' sig1 ''ord1'')\<rparr>"
  let ?c = "\<lparr>http_method = ''POST'', auth_user = None,
      body = Some (CreateOrder ''ord1'' (5999 / 100))\<rparr>"
  have "fst (serve test_sign test_gateway test_env ?v db0) = Unauthorized
      \<and> snd (serve test_sign test_gateway test_env ?v db0) = db0"
    using unauthorized_iff_unauthenticated [OF prod.collapse [symmetric], of test_sign test_gateway test_env ?v db0]
    by simp
  moreover have "fst (serve test_sign test_gateway test_env ?c db0) = Unauthorized
      \<and> snd (serve test_sign test_gateway test_env ?c db0) = db0"
    using unauthorized_iff_unauthenticated [OF prod.collapse [symmetric], of test_sign test_gateway test_env ?c db0]
    by simp
  ultimately show ?thesis by (simp add: prod_eq_iff)
qed


text \<open>
  Claim C3, as stated, fails: mallory, who does not own alice's order, gets a payment row
  written for it by \<^verbatim>\<open>create-order\<close> and gets it confirmed by \<^verbatim>\<open>verify-payment\<close>;
  the payment row of alice stays as it was, since mallory is no admin. Neither call is
  answered with \<open>Unauthorized\<close>.
\<close>

theorem ownership_not_checked_counterexample:
  "owner_id ord1 = ''alice''
   \<and> ord1 \<in> set (orders db0)
   \<and> serve test_sign test_gateway test_env
       \<lparr>http_method = ''POST'', auth_user = Some ''mallory'',
        body = Some (CreateOrder ''ord1'' (5999 / 100))\<rparr> db0
     = (RazorpayOrderCreated ''r9'' ''rzp_test'' 5999 ''INR'', db0\<lparr>payments := [pay1, pay_mallory]\<rparr>)
   \<and> serve test_sign test_gateway test_env
       \<lparr>http_method = ''POST'', auth_user = Some ''mallory'',
        body = Some (VerifyPayment ''r1'' ''p1'' sig1 ''ord1'')\<rparr> db0
     = (PaymentVerified, db0\<lparr>orders := [confirmed_patch ord1, ord2]\<rparr>)"
proof -
  have "round (5999 / 100 * 100 :: rat) = 5999" by simp
  then have c: "serve test_sign test_gateway test_env
       \<lparr>http_method = ''POST'', auth_user = Some ''mallory'',
        body = Some (CreateOrder ''ord1'' (5999 / 100))\<rparr> db0
     = (RazorpayOrderCreated ''r9'' ''rzp_test'' 5999 ''INR'', db0\<lparr>payments := [pay1, pay_mallory]\<rparr>)"
    by (simp add: serve_def create_order_def test_gateway_def insert_payment_def db0_def test_env_def
        pay_mallory_def payments_insert_policy_def)
  have v: "serve test_sign test_gateway test_env
       \<lparr>http_method = ''POST'', auth_user = Some ''mallory'',
        body = Some (VerifyPayment ''r1'' ''p1'' sig1 ''ord1'')\<rparr> db0
     = (PaymentVerified, db0\<lparr>orders := [confirmed_patch ord1, ord2]\<rparr>)"
    by (simp add: serve_verify verify_payment_match [OF sig1_matches])
       (simp add: db0_def update_where_def has_role_admin_def ord1_def ord2_def)
  have "owner_id ord1 = ''alice''" "ord1 \<in> set (orders db0)"
    by (simp_all add: ord1_def db0_def)
  with c v show ?thesis by simp
qed

section \<open>The cart and the inventory loop\<close>

lemma select_single_decrement_same:
  "select_single_variant (\<lambda>v. id_variant v = vid) db = Some variant \<Longrightarrow>
   select_single_variant (\<lambda>v. id_variant v = vid) (decrement vid qty db)
     = Some (variant\<lparr>stock_quantity := stock_quantity variant - qty\<rparr>)"
  by (auto simp: select_single_variant_def decrement_def update_product_variants_def
        filter_update_where_same split: if_splits list.splits)

lemma select_single_decrement_other:
  "w \<noteq> vid \<Longrightarrow>
   select_single_variant (\<lambda>v. id_variant v = w) (decrement vid qty db)
     = select_single_variant (\<lambda>v. id_variant v = w) db"
  by (simp add: select_single_variant_def decrement_def update_product_variants_def
        filter_variant_other split: option.splits)

lemma decrement_unreadable:
  "select_single_variant (\<lambda>v. id_variant v = vid) db = None \<Longrightarrow> decrement vid qty db = db"
  by (simp add: decrement_def)

lemma stock_of_decrement_same:
  "stock_of db vid = Some current \<Longrightarrow> stock_of (decrement vid qty db) vid = Some (current - qty)"
  by (auto simp: stock_of_def select_single_decrement_same)

lemma stock_of_decrement_other:
  "w \<noteq> vid \<Longrightarrow> stock_of (decrement vid qty db) w = stock_of db w"
  by (simp add: stock_of_def select_single_decrement_other)

lemma stock_of_update_inventory_other:
  "w \<notin> variantId ` set items \<Longrightarrow> stock_of (update_inventory items db) w = stock_of db w"
  by (induction items arbitrary: db) (auto simp: stock_of_decrement_other)

lemma stock_of_update_inventory_item:
  "distinct (map variantId items) \<Longrightarrow> item \<in> set items \<Longrightarrow>
   stock_of db (variantId item) = Some current \<Longrightarrow>
   stock_of (update_inventory items db) (variantId item) = Some (current - quantity item)"
proof (induction items arbitrary: db)
  case Nil
  then show ?case by simp
next
  case (Cons i items)
  show ?case
  proof (cases "item = i")
    case True
    with Cons.prems have "variantId item \<notin> variantId ` set items" by auto
    with True Cons.prems show ?thesis
      by (simp add: stock_of_update_inventory_other stock_of_decrement_same)
  next
    case False
    with Cons.prems have in_rest: "item \<in> set items" by simp
    from Cons.prems have "variantId i \<notin> variantId ` set items" by simp
    with in_rest have "variantId item \<noteq> variantId i" by (metis imageI)
    with in_rest Cons show ?thesis
      by (simp add: stock_of_decrement_other)
  qed
qed

lemma addItem_variantIds:
  "map variantId (addItem item current) =
     (if variantId item \<in> variantId ` set current then map variantId current
      else map variantId current @ [variantId item])"
  by (induction current) auto

lemma addItem_distinct:
  "distinct (map variantId current) \<Longrightarrow> distinct (map variantId (addItem item current))"
  by (simp add: addItem_variantIds)

lemma removeItem_distinct:
  "distinct (map variantId current) \<Longrightarrow> distinct (map variantId (removeItem vid current))"
  by (simp add: removeItem_def distinct_map_filter)

lemma updateQuantity_distinct:
  assumes "distinct (map variantId current)"
  shows "distinct (map variantId (updateQuantity vid qty current))"
proof -
  have "map variantId (map (\<lambda>item. if variantId item = vid then item\<lparr>quantity := qty\<rparr> else item) current)
        = map variantId current"
    by (induction current) auto
  with assms show ?thesis
    unfolding updateQuantity_def using removeItem_distinct [of current vid] by presburger
qed

lemma cart_state_distinct: "cart_state items \<Longrightarrow> distinct (map variantId items)"
  by (induction rule: cart_state.induct)
     (simp_all add: addItem_distinct removeItem_distinct updateQuantity_distinct clearCart_def)

lemma insert_order_items_rows:
  "insert_order_items oid items db = Inr db' \<Longrightarrow>
   order_items db' = order_items db @ map (order_item_of oid) items"
  by (induction items arbitrary: db) (auto split: if_splits)

lemma stock_of_cong:
  "product_variants a = product_variants b \<Longrightarrow> outage a = outage b \<Longrightarrow> stock_of a w = stock_of b w"
  by (simp add: stock_of_def select_single_variant_def)

lemma verify_payment_frame:
  "product_variants (snd (verify_payment sign env u rid pid sg oid db)) = product_variants db"
  "order_items (snd (verify_payment sign env u rid pid sg oid db)) = order_items db"
  "outage (snd (verify_payment sign env u rid pid sg oid db)) = outage db"
  "admins (snd (verify_payment sign env u rid pid sg oid db)) = admins db"
  by (cases "signature_matches sign (RAZORPAY_KEY_SECRET env) rid pid sg";
      simp add: verify_payment_match verify_payment_mismatch)+



lemma handler_db0:
  "handler test_sign test_gateway test_env (Some ''alice'') ''ord1'' [item1] resp1 db0
     = (ToastSuccess ''Payment successful! Order confirmed.'', [], db1c)"
  unfolding resp1_def
  by (simp add: handler_match [OF sig1_matches] verify_payment_match [OF sig1_matches] clearCart_def)
     (simp add: db0_def db1c_def update_where_def decrement_def select_single_variant_def
        update_product_variants_def has_role_admin_def pay1_def ord1_def ord2_def item1_def
        var1_def)



text \<open>
  Claim C7, as the code has it. The loop body writes the stock it read minus the quantity,
  whatever the sign of the result: the new stock is non-negative exactly when the quantity
  does not exceed the stock read. Other variants keep their stock.
\<close>

theorem decrement_writes_difference:
  assumes "stock_of db vid = Some current"
  shows "stock_of (decrement vid qty db) vid = Some (current - qty)
       \<and> (0 \<le> current - qty \<longleftrightarrow> qty \<le> current)
       \<and> (\<forall>w. w \<noteq> vid \<longrightarrow> stock_of (decrement vid qty db) w = stock_of db w)"
  using assms by (simp add: stock_of_decrement_same stock_of_decrement_other)

theorem decrement_writes_difference_witness:
  "stock_of db0 ''v1'' = Some 5 \<and> stock_of (decrement ''v1'' 2 db0) ''v1'' = Some 3
   \<and> stock_of (decrement ''v1'' 7 db0) ''v1'' = Some (- 2)"
proof -
  have s: "stock_of db0 ''v1'' = Some 5"
    by (simp add: stock_of_def select_single_variant_def db0_def var1_def)
  from decrement_writes_difference [OF s, of 2] decrement_writes_difference [OF s, of 7] s
  show ?thesis by simp
qed


text \<open>
  Claim C7, as stated, fails: with stock 1 and quantity 2 the loop body writes \<open>-1\<close>; it
  has no failure outcome.
\<close>

theorem decrement_negative_counterexample:
  "stock_of (db0\<lparr>product_variants := [var1\<lparr>stock_quantity := 1\<rparr>]\<rparr>) ''v1'' = Some 1
   \<and> stock_of (decrement ''v1'' 2 (db0\<lparr>product_variants := [var1\<lparr>stock_quantity := 1\<rparr>]\<rparr>)) ''v1''
       = Some (- 1)"
  by (simp add: stock_of_def select_single_variant_def decrement_def update_product_variants_def
      update_where_def db0_def var1_def)

text \<open>
  What a run of the handler with a verified payload does when the payments table takes the
  caller's update (the caller is an admin), the orders table takes the write, and the cart
  entries have distinct variants and are the order's items.
\<close>

lemma confirm_effects:
  assumes sig: "signature_matches sign (RAZORPAY_KEY_SECRET env) rid pid sg"
    and avail: "T_payments \<notin> outage db" "T_orders \<notin> outage db"
    and adm: "has_role_admin db u"
    and dist: "distinct (map variantId items)"
    and ois: "filter (\<lambda>oi. oi_order_id oi = oid) (order_items db) = map (order_item_of oid) items"
    and run: "handler sign gw env (Some u) oid items
                \<lparr>resp_razorpay_order_id = rid, resp_razorpay_payment_id = pid,
                 resp_razorpay_signature = sg\<rparr> db = (outcome, cart, db')"
  shows "outcome = ToastSuccess ''Payment successful! Order confirmed.''
    \<and> cart = []
    \<and> (\<forall>ord \<in> set (orders db). id_order ord = oid \<longrightarrow> confirmed_patch ord \<in> set (orders db'))
    \<and> (\<forall>ord' \<in> set (orders db'). id_order ord' = oid \<longrightarrow> order_status ord' = OrderConfirmed)
    \<and> (\<forall>p \<in> set (payments db). razorpay_order_id p = rid \<longrightarrow> completed_patch pid sg p \<in> set (payments db'))
    \<and> (\<forall>p' \<in> set (payments db'). razorpay_order_id p' = rid \<longrightarrow> status p' = Completed)
    \<and> (\<forall>item \<in> set items. \<forall>current. stock_of db (variantId item) = Some current \<longrightarrow>
          stock_of db' (variantId item) = Some (current - quantity item))
    \<and> (\<forall>oi \<in> set (order_items db). oi_order_id oi = oid \<longrightarrow>
          (\<forall>current. stock_of db (oi_variant_id oi) = Some current \<longrightarrow>
             stock_of db' (oi_variant_id oi) = Some (current - oi_quantity oi)))
    \<and> (\<forall>w. w \<notin> variantId ` set items \<longrightarrow> stock_of db' w = stock_of db w)"
proof -
  let ?v = "snd (verify_payment sign env u rid pid sg oid db)"
  from run sig have o: "outcome = ToastSuccess ''Payment successful! Order confirmed.''"
    and c: "cart = []" and d: "db' = update_inventory items ?v"
    by (simp_all add: handler_match clearCart_def)
  from sig avail adm have ps: "payments db' = update_where (\<lambda>p. razorpay_order_id p = rid) (completed_patch pid sg) (payments db)"
    and os: "orders db' = update_where (\<lambda>ord. id_order ord = oid) confirmed_patch (orders db)"
    unfolding d by (simp_all add: update_inventory_frame verify_payment_match)
  have o1: "\<forall>ord \<in> set (orders db). id_order ord = oid \<longrightarrow> confirmed_patch ord \<in> set (orders db')"
    unfolding os using update_where_mem [of _ "orders db" "\<lambda>ord. id_order ord = oid" confirmed_patch]
    by blast
  have o2: "\<forall>ord' \<in> set (orders db'). id_order ord' = oid \<longrightarrow> order_status ord' = OrderConfirmed"
    unfolding os using confirmed_rows by blast
  have p1: "\<forall>p \<in> set (payments db). razorpay_order_id p = rid \<longrightarrow> completed_patch pid sg p \<in> set (payments db')"
    unfolding ps using update_where_mem [of _ "payments db" "\<lambda>p. razorpay_order_id p = rid" "completed_patch pid sg"]
    by blast
  have p2: "\<forall>p' \<in> set (payments db'). razorpay_order_id p' = rid \<longrightarrow> status p' = Completed"
    unfolding ps using completed_rows by blast
  have sv: "stock_of ?v w = stock_of db w" for w
    by (rule stock_of_cong) (simp_all add: verify_payment_frame)
  have s1: "stock_of db' (variantId item) = Some (current - quantity item)"
    if "item \<in> set items" "stock_of db (variantId item) = Some current" for item current
    unfolding d using dist that by (simp add: stock_of_update_inventory_item sv)
  have s2: "stock_of db' (oi_variant_id oi) = Some (current - oi_quantity oi)"
    if "oi \<in> set (order_items db)" "oi_order_id oi = oid" "stock_of db (oi_variant_id oi) = Some current"
    for oi current
  proof -
    from that(1,2) have "oi \<in> set (filter (\<lambda>oi. oi_order_id oi = oid) (order_items db))" by simp
    then obtain item where i: "item \<in> set items" "oi = order_item_of oid item"
      unfolding ois by auto
    then have "oi_variant_id oi = variantId item" "oi_quantity oi = quantity item"
      by (simp_all add: order_item_of_def)
    with s1 [OF i(1)] that(3) show ?thesis by simp
  qed
  have s3: "stock_of db' w = stock_of db w" if "w \<notin> variantId ` set items" for w
    unfolding d using that by (simp add: stock_of_update_inventory_other sv)
  from s1 have s1': "\<forall>item \<in> set items. \<forall>current. stock_of db (variantId item) = Some current \<longrightarrow>
          stock_of db' (variantId item) = Some (current - quantity item)" by blast
  from s2 have s2': "\<forall>oi \<in> set (order_items db). oi_order_id oi = oid \<longrightarrow>
          (\<forall>current. stock_of db (oi_variant_id oi) = Some current \<longrightarrow>
             stock_of db' (oi_variant_id oi) = Some (current - oi_quantity oi))" by blast
  from s3 have s3': "\<forall>w. w \<notin> variantId ` set items \<longrightarrow> stock_of db' w = stock_of db w" by blast
  show ?thesis
    by (intro conjI) (fact o, fact c, fact o1, fact o2, fact p1, fact p2, fact s1', fact s2', fact s3')
qed

text \<open>
  Claim C6. Alice is a customer, the store is available, her order is pending and its one
  item has quantity 2 on a variant with stock 5. The handler run with the verified payload
  reports success, the order is confirmed and the stock is 3, but the payment row is not
  completed: the update runs under her token, the payments table lets only admins update,
  and the row stays pending. With the product variants table unavailable the handler
  reports success as well and the stock stays 5.
\<close>

theorem successful_confirm_payment_stays_pending:
  "signature_matches test_sign (RAZORPAY_KEY_SECRET test_env) ''r1'' ''p1'' sig1
   \<and> \<not> has_role_admin db0 ''alice''
   \<and> outage db0 = {}
   \<and> order_status ord1 = OrderPending
   \<and> quantity item1 = 2
   \<and> stock_of db0 ''v1'' = Some 5
   \<and> handler test_sign test_gateway test_env (Some ''alice'') ''ord1'' [item1] resp1 db0
       = (ToastSuccess ''Payment successful! Order confirmed.'', [], db1c)
   \<and> map order_status (orders db1c) = [OrderConfirmed, OrderPending]
   \<and> stock_of db1c ''v1'' = Some 3
   \<and> payments db1c = [pay1]
   \<and> razorpay_order_id pay1 = ''r1''
   \<and> status pay1 = Pending
   \<and> fst (handler test_sign test_gateway test_env (Some ''alice'') ''ord1'' [item1] resp1
            (db0\<lparr>outage := {T_product_variants}\<rparr>))
       = ToastSuccess ''Payment successful! Order confirmed.''
   \<and> product_variants (snd (snd (handler test_sign test_gateway test_env (Some ''alice'') ''ord1''
            [item1] resp1 (db0\<lparr>outage := {T_product_variants}\<rparr>)))) = [var1]
   \<and> stock_quantity var1 = 5"
proof -
  have c: "\<not> has_role_admin db0 ''alice''" "outage db0 = {}" "order_status ord1 = OrderPending"
    "quantity item1 = 2" "razorpay_order_id pay1 = ''r1''" "status pay1 = Pending"
    "stock_quantity var1 = 5" "payments db1c = [pay1]"
    by (simp_all add: has_role_admin_def db0_def db1c_def ord1_def item1_def pay1_def var1_def)
  have st: "stock_of db0 ''v1'' = Some 5" "stock_of db1c ''v1'' = Some 3"
    by (simp_all add: stock_of_def select_single_variant_def db0_def db1c_def var1_def)
  have os: "map order_status (orders db1c) = [OrderConfirmed, OrderPending]"
    by (simp add: db1c_def ord2_def confirmed_patch_def)
  have h: "handler test_sign test_gateway test_env (Some ''alice'') ''ord1'' [item1] resp1
            (db0\<lparr>outage := {T_product_variants}\<rparr>)
      = (ToastSuccess ''Payment successful! Order confirmed.'', clearCart,
         update_inventory [item1] (snd (verify_payment test_sign test_env ''alice'' ''r1'' ''p1'' sig1
            ''ord1'' (db0\<lparr>outage := {T_product_variants}\<rparr>))))"
    unfolding resp1_def by (rule handler_match [OF sig1_matches])
  have v: "product_variants (snd (snd (handler test_sign test_gateway test_env (Some ''alice'') ''ord1''
            [item1] resp1 (db0\<lparr>outage := {T_product_variants}\<rparr>)))) = [var1]"
    unfolding h
    by (simp add: decrement_def select_single_variant_def verify_payment_match [OF sig1_matches]
        db0_def)
  have f: "fst (handler test_sign test_gateway test_env (Some ''alice'') ''ord1'' [item1] resp1
            (db0\<lparr>outage := {T_product_variants}\<rparr>))
       = ToastSuccess ''Payment successful! Order confirmed.''"
    unfolding h by simp
  show ?thesis
    by (intro conjI)
       (fact sig1_matches, fact c(1), fact c(2), fact c(3), fact c(4), fact st(1), fact handler_db0,
        fact os, fact st(2), fact c(8), fact c(5), fact c(6), fact f, fact v, fact c(7))
qed





end
